theory Spec2Isabelle
  imports Complex_Main "HOL-Library.Word"
begin

section \<open>JavaScript strings\<close>

text \<open>
  A JavaScript string is a sequence of UTF-16 code units. The regular expressions of the
  turn procedure carry no \<open>u\<close> flag, so they work on code units too. Literals are written
  through \<open>js\<close>, which maps an ASCII literal to its code units.
\<close>

type_synonym jschar = "16 word"
type_synonym jsstring = "jschar list"

definition js :: "string \<Rightarrow> jsstring" where
  "js s = map of_char s"

text \<open>Truthiness of a value of type \<open>string | null | undefined\<close>: the empty string is falsy.\<close>

definition truthy :: "jsstring option \<Rightarrow> bool" where
  "truthy v = (case v of None \<Rightarrow> False | Some s \<Rightarrow> s \<noteq> [])"

definition startsWith :: "jsstring \<Rightarrow> jsstring \<Rightarrow> bool" where
  "startsWith s p = (take (length p) s = p)"

text \<open>
  \<open>String.prototype.trim\<close> removes WhiteSpace and LineTerminator code points from both
  ends: TAB, LF, VT, FF, CR, SPACE, NBSP, the other space separators and U+FEFF.
\<close>

definition isTrimmable :: "jschar \<Rightarrow> bool" where
  "isTrimmable c =
     (c \<in> set [0x09, 0x0A, 0x0B, 0x0C, 0x0D, 0x20, 0xA0, 0x1680, 0x2028, 0x2029,
               0x202F, 0x205F, 0x3000, 0xFEFF]
      \<or> (0x2000 \<le> c \<and> c \<le> 0x200A))"

definition trim :: "jsstring \<Rightarrow> jsstring" where
  "trim s = rev (dropWhile isTrimmable (rev (dropWhile isTrimmable s)))"

section \<open>Global regular-expression replacement\<close>

text \<open>
  \<open>s.replace(/re/g, rep)\<close> scans the input from left to right. At each position the
  pattern is tried; on a match the replacement is emitted and the scan resumes after the
  match, otherwise the code unit is copied and the scan moves on by one. A pattern is
  given as a matcher: told whether the position is at the beginning of a line (for \<open>^\<close>
  under the \<open>m\<close> flag) and given the rest of the input, it answers with the replacement
  text and the number of code units matched. After an empty match the scan copies one
  code unit and moves on, as \<open>AdvanceStringIndex\<close> does.
\<close>

definition isLineTerminator :: "jschar \<Rightarrow> bool" where
  "isLineTerminator c = (c \<in> set [0x0A, 0x0D, 0x2028, 0x2029])"

type_synonym matcher = "bool \<Rightarrow> jsstring \<Rightarrow> (jsstring \<times> nat) option"

function replace_global :: "matcher \<Rightarrow> bool \<Rightarrow> jsstring \<Rightarrow> jsstring" where
  "replace_global m bol [] = (case m bol [] of None \<Rightarrow> [] | Some (rep, n) \<Rightarrow> rep)"
| "replace_global m bol (c # cs) =
     (case m bol (c # cs) of
        None \<Rightarrow> c # replace_global m (isLineTerminator c) cs
      | Some (rep, n) \<Rightarrow>
          if n = 0 then rep @ c # replace_global m (isLineTerminator c) cs
          else rep @ replace_global m (isLineTerminator (last (take n (c # cs))))
                       (drop n (c # cs)))"
  by pat_completeness auto
termination
  by (relation "measure (\<lambda>(m, bol, s). length s)") auto

subsection \<open>The patterns of the markdown stripping\<close>

text \<open>
  \<open>delimited d x\<close> is the pattern \<open>d([^x]+)d\<close> with replacement \<open>$1\<close>, where the
  delimiter \<open>d\<close> is one or two copies of \<open>x\<close>. The greedy \<open>[^x]+\<close> takes the longest run
  free of \<open>x\<close>; giving a code unit back never helps, since the closing delimiter would
  then face a code unit that is not \<open>x\<close>.
\<close>

definition delimited :: "jsstring \<Rightarrow> jschar \<Rightarrow> matcher" where
  "delimited d x bol s =
     (let r = drop (length d) s;
          g = takeWhile (\<lambda>c. c \<noteq> x) r;
          t = dropWhile (\<lambda>c. c \<noteq> x) r
      in if take (length d) s = d \<and> g \<noteq> [] \<and> take (length d) t = d
         then Some (g, length d + length g + length d) else None)"

text \<open>\<open>/```[^`]*```/gs\<close>, replaced by the empty string.\<close>

definition codeBlock :: matcher where
  "codeBlock bol s =
     (let r = drop 3 s;
          g = takeWhile (\<lambda>c. c \<noteq> 0x60) r;
          t = dropWhile (\<lambda>c. c \<noteq> 0x60) r
      in if take 3 s = [0x60, 0x60, 0x60] \<and> take 3 t = [0x60, 0x60, 0x60]
         then Some ([], 3 + length g + 3) else None)"

text \<open>\<open>/^[#]+[ \t]/gm\<close>, replaced by the empty string.\<close>

definition header :: matcher where
  "header bol s =
     (let g = takeWhile (\<lambda>c. c = 0x23) s;
          t = dropWhile (\<lambda>c. c = 0x23) s
      in if bol \<and> g \<noteq> [] \<and> (take 1 t = [0x20] \<or> take 1 t = [0x09])
         then Some ([], length g + 1) else None)"

text \<open>\<open>/\[([^\]]+)\]\([^\)]+\)/g\<close>, replaced by \<open>$1\<close>.\<close>

definition link :: matcher where
  "link bol s =
     (let r = drop 1 s;
          g = takeWhile (\<lambda>c. c \<noteq> 0x5D) r;
          t = dropWhile (\<lambda>c. c \<noteq> 0x5D) r;
          u = drop 2 t;
          h = takeWhile (\<lambda>c. c \<noteq> 0x29) u;
          v = dropWhile (\<lambda>c. c \<noteq> 0x29) u
      in if take 1 s = [0x5B] \<and> g \<noteq> [] \<and> take 2 t = [0x5D, 0x28] \<and> h \<noteq> []
            \<and> take 1 v = [0x29]
         then Some (g, 1 + length g + 2 + length h + 1) else None)"

text \<open>\<open>/[\[\]\(\)*_#`]/g\<close>, replaced by the empty string.\<close>

definition symbol :: matcher where
  "symbol bol s =
     (case s of
        [] \<Rightarrow> None
      | c # _ \<Rightarrow>
          if c \<in> set [0x5B, 0x5D, 0x28, 0x29, 0x2A, 0x5F, 0x23, 0x60]
          then Some ([], 1) else None)"

text \<open>
  The chain of nine \<open>replace\<close> calls of \<open>sendTurn\<close>, in the order of the source:
  bold \<open>**\<close>, italic \<open>*\<close>, bold \<open>__\<close>, italic \<open>_\<close>, inline code, code blocks, headers,
  links, remaining symbols. Code units: \<open>*\<close> 0x2A, \<open>_\<close> 0x5F, backquote 0x60, \<open>#\<close> 0x23,
  \<open>[\<close> 0x5B, \<open>]\<close> 0x5D, \<open>(\<close> 0x28, \<open>)\<close> 0x29.
\<close>

definition stripMarkdown :: "jsstring \<Rightarrow> jsstring" where
  "stripMarkdown s =
     replace_global symbol True
       (replace_global link True
         (replace_global header True
           (replace_global codeBlock True
             (replace_global (delimited [0x60] 0x60) True
               (replace_global (delimited [0x5F] 0x5F) True
                 (replace_global (delimited [0x5F, 0x5F] 0x5F) True
                   (replace_global (delimited [0x2A] 0x2A) True
                     (replace_global (delimited [0x2A, 0x2A] 0x2A) True s))))))))"

section \<open>The turn procedure (\<open>server/api/routers/debate.ts\<close>)\<close>

subsection \<open>Configuration and exceptions\<close>

record env =
  FAL_API_KEY :: "jsstring option"
  GROQ_API_KEY :: "jsstring option"

text \<open>
  What can be thrown: \<open>new Error(message)\<close>, a \<open>TypeError\<close> of the runtime (a property
  read on \<open>undefined\<close> or \<open>null\<close>, a call of something that is no function), the
  rejection of a promise of a collaborator (\<open>fetch\<close>, \<open>response.text()\<close>,
  \<open>response.json()\<close>, \<open>fal.subscribe\<close>), and the rejection of the input by the
  validator \<open>z.object({ text: z.string().min(1) })\<close>.
\<close>

datatype exn = Error jsstring | TypeError | Rejected | BAD_REQUEST

subsection \<open>Speech synthesis: \<open>getFalTtsAudioUrl\<close>\<close>

text \<open>
  The behaviour of the synthesis provider on a request: the call rejects; it resolves
  with a result that has no \<open>data.audio\<close> object; it resolves with a string at
  \<open>data.audio.url\<close>; it resolves with something else there.
\<close>

datatype fal_result = FalRejected | FalNoAudio | FalAudioUrl jsstring | FalAudioOther

type_synonym fal_service = "jsstring \<Rightarrow> fal_result"

text \<open>The body of the \<open>try\<close> block.\<close>

definition fal_try :: "fal_service \<Rightarrow> jsstring \<Rightarrow> exn + jsstring option" where
  "fal_try fal textToSpeak =
     (case fal textToSpeak of
        FalRejected \<Rightarrow> Inl Rejected
      | FalNoAudio \<Rightarrow> Inl TypeError
      | FalAudioUrl url \<Rightarrow> Inr (Some url)
      | FalAudioOther \<Rightarrow> Inr None)"

definition getFalTtsAudioUrl :: "fal_service \<Rightarrow> jsstring \<Rightarrow> exn + jsstring option" where
  "getFalTtsAudioUrl fal textToSpeak =
     (case fal_try fal textToSpeak of
        Inl error \<Rightarrow> Inr None
      | Inr url \<Rightarrow> Inr url)"

subsection \<open>Chat completion: \<open>getGroqResponse\<close>\<close>

text \<open>
  The value at \<open>data.choices[0]?.message?.content\<close>: falsy and no string (\<open>undefined\<close>,
  \<open>null\<close>, \<open>0\<close>, \<open>false\<close>), a string, or a truthy value that is no string (a number,
  an object), on which \<open>.trim()\<close> is a \<open>TypeError\<close>.
\<close>

datatype chat_content = ContentFalsy | ContentString jsstring | ContentOther

text \<open>
  The parsed body: \<open>null\<close> (reading \<open>data.choices\<close> throws), a value whose \<open>choices\<close> is
  falsy or has no element, or one with a first choice.
\<close>

datatype groq_data = DataNull | NoChoices | FirstChoice chat_content

text \<open>
  A response of \<open>fetch\<close>. \<open>textBody\<close> and \<open>jsonBody\<close> are what \<open>response.text()\<close> and
  \<open>response.json()\<close> resolve with, \<open>None\<close> when they reject.
\<close>

record http_response =
  ok :: bool
  statusText :: jsstring
  textBody :: "jsstring option"
  jsonBody :: "groq_data option"

datatype fetch_result = FetchRejected | FetchResolved http_response

text \<open>The body of the \<open>try\<close> block.\<close>

definition groq_try :: "fetch_result \<Rightarrow> exn + jsstring option" where
  "groq_try fetch =
     (case fetch of
        FetchRejected \<Rightarrow> Inl Rejected
      | FetchResolved response \<Rightarrow>
          if \<not> ok response then
            (case textBody response of
               None \<Rightarrow> Inl Rejected
             | Some errorBody \<Rightarrow>
                 Inr (Some (js ''Error communicating with Groq API: '' @ statusText response)))
          else
            (case jsonBody response of
               None \<Rightarrow> Inl Rejected
             | Some DataNull \<Rightarrow> Inl TypeError
             | Some NoChoices \<Rightarrow> Inr (Some (js ''No response text found from Groq API.''))
             | Some (FirstChoice ContentFalsy) \<Rightarrow>
                 Inr (Some (js ''No response text found from Groq API.''))
             | Some (FirstChoice ContentOther) \<Rightarrow> Inl TypeError
             | Some (FirstChoice (ContentString content)) \<Rightarrow>
                 if content \<noteq> [] then Inr (Some (trim content))
                 else Inr (Some (js ''No response text found from Groq API.''))))"

definition getGroqResponse :: "env \<Rightarrow> fetch_result \<Rightarrow> jsstring \<Rightarrow> exn + jsstring option" where
  "getGroqResponse e fetch userText =
     (if \<not> truthy (GROQ_API_KEY e) then Inr (Some (js ''Error: Groq API key not configured.''))
      else case groq_try fetch of
        Inl error \<Rightarrow> Inr (Some (js ''Error sending request to Groq API.''))
      | Inr aiText \<Rightarrow> Inr aiText)"

subsection \<open>The procedure \<open>sendTurn\<close>\<close>

record data =
  aiText :: jsstring
  audioUrl :: "jsstring option"

text \<open>
  The outcome of a call: the object returned to the client, and the arguments of the calls
  of \<open>getFalTtsAudioUrl\<close>, in order.
\<close>

record turn =
  reply :: data
  ttsCalls :: "jsstring list"

text \<open>
  \<open>plainTextForTts\<close> is first the reply or, for a falsy reply, the default text; a
  truthy reply that does not start with \<open>Error:\<close> is then replaced by its stripped form.
  \<open>spokenError\<close> is the branch taken when the reply is falsy or starts with \<open>Error:\<close>:
  the same text is spoken and returned. Otherwise the reply itself is returned.
\<close>

definition sendTurn :: "env \<Rightarrow> fetch_result \<Rightarrow> fal_service \<Rightarrow> jsstring \<Rightarrow> exn + turn" where
  "sendTurn e fetch fal text =
     (if length text < 1 then Inl BAD_REQUEST
      else case getGroqResponse e fetch text of
        Inl error \<Rightarrow> Inl error
      | Inr aiTextResponse \<Rightarrow>
          let plainTextForTts =
                (case aiTextResponse of
                   None \<Rightarrow> js ''Sorry, I encountered an error.''
                 | Some s \<Rightarrow>
                     if s = [] then js ''Sorry, I encountered an error.''
                     else if startsWith s (js ''Error:'') then s
                     else stripMarkdown s);
              spokenError =
                (case getFalTtsAudioUrl fal plainTextForTts of
                   Inl error \<Rightarrow> Inl error
                 | Inr url \<Rightarrow>
                     Inr \<lparr>reply = \<lparr>aiText = plainTextForTts, audioUrl = url\<rparr>,
                          ttsCalls = [plainTextForTts]\<rparr>)
          in (case aiTextResponse of
                None \<Rightarrow> spokenError
              | Some s \<Rightarrow>
                  if s = [] \<or> startsWith s (js ''Error:'') then spokenError
                  else
                    (case getFalTtsAudioUrl fal plainTextForTts of
                       Inl error \<Rightarrow> Inl error
                     | Inr url \<Rightarrow>
                         Inr \<lparr>reply = \<lparr>aiText = s, audioUrl = url\<rparr>,
                              ttsCalls = [plainTextForTts]\<rparr>)))"

text \<open>
  Loading the module runs the two checks of the API keys first; the router, with its one
  procedure, exists only when neither throws.
\<close>

definition debateRouter ::
  "env \<Rightarrow> exn + (fetch_result \<Rightarrow> fal_service \<Rightarrow> jsstring \<Rightarrow> exn + turn)" where
  "debateRouter e =
     (if \<not> truthy (FAL_API_KEY e)
      then Inl (Error (js ''FAL_API_KEY environment variable is not set.''))
      else if \<not> truthy (GROQ_API_KEY e)
      then Inl (Error (js ''GROQ_API_KEY environment variable is not set.''))
      else Inr (sendTurn e))"

section \<open>The page (client component \<open>HomePage\<close>)\<close>

subsection \<open>State\<close>

datatype speaker = User | Ai

record message =
  speaker :: speaker
  msgText :: jsstring

text \<open>
  The platform objects behind the two refs. Of the recognition instance the model keeps its
  configuration and whether \<open>start()\<close> was called last (\<open>capturing\<close>); of the
  \<open>audio\<close> element its source, whether it is paused, and its position in seconds.
\<close>

record recognition =
  continuous :: bool
  interimResults :: bool
  lang :: jsstring
  capturing :: bool

record audio =
  src :: "jsstring option"
  paused :: bool
  currentTime :: real

text \<open>
  The state of the component: the seven \<open>useState\<close> values, the two refs, the mutation
  and the number of promises of \<open>play()\<close> that are not settled yet. Of the mutation the
  state keeps the number of calls of \<open>sendTurnMutation.mutate\<close> so far (\<open>mutations\<close>; the
  calls are numbered from 1, so this is also the number of the latest call) and the calls
  that have no response yet, each with its number and its text (\<open>inFlight\<close>). Responses may
  arrive in any order. The state variable \<open>audioUrl\<close> is named \<open>audioUrlState\<close>, to keep
  it apart from the field of the response.
\<close>

record page =
  isRecording :: bool
  isAiSpeaking :: bool
  userTranscript :: jsstring
  aiResponse :: jsstring
  conversation :: "message list"
  audioUrlState :: "jsstring option"
  isSpeechApiSupported :: bool
  recognitionRef :: "recognition option"
  audioPlayerRef :: "audio option"
  mutations :: nat
  inFlight :: "(nat \<times> jsstring) list"
  playPromises :: nat

text \<open>The first render: the initial values of \<open>useState\<close> and \<open>useRef\<close>.\<close>

definition initial :: page where
  "initial =
     \<lparr>isRecording = False, isAiSpeaking = False, userTranscript = [], aiResponse = [],
      conversation = [], audioUrlState = None, isSpeechApiSupported = False,
      recognitionRef = None, audioPlayerRef = None, mutations = 0, inFlight = [],
      playPromises = 0\<rparr>"

subsection \<open>State updates and rendering\<close>

text \<open>
  A call of a state setter does not change the state at once: it queues an update. React
  applies the updates queued by one handler in one batch and renders once, so no render
  sees a state between two setter calls of the same handler. A handler is therefore
  modelled as a function that returns the page with its refs changed (those change at
  once) and the queue of updates; \<open>commit\<close> applies the queue.
\<close>

datatype update =
    SetIsRecording bool
  | SetIsAiSpeaking bool
  | SetUserTranscript jsstring
  | SetAiResponse jsstring
  | AppendConversation message
  | SetAudioUrl "jsstring option"
  | SetIsSpeechApiSupported bool

fun apply_update :: "update \<Rightarrow> page \<Rightarrow> page" where
  "apply_update (SetIsRecording b) s = s\<lparr>isRecording := b\<rparr>"
| "apply_update (SetIsAiSpeaking b) s = s\<lparr>isAiSpeaking := b\<rparr>"
| "apply_update (SetUserTranscript t) s = s\<lparr>userTranscript := t\<rparr>"
| "apply_update (SetAiResponse t) s = s\<lparr>aiResponse := t\<rparr>"
| "apply_update (AppendConversation m) s = s\<lparr>conversation := conversation s @ [m]\<rparr>"
| "apply_update (SetAudioUrl u) s = s\<lparr>audioUrlState := u\<rparr>"
| "apply_update (SetIsSpeechApiSupported b) s = s\<lparr>isSpeechApiSupported := b\<rparr>"

definition commit :: "page \<Rightarrow> update list \<Rightarrow> page" where
  "commit s us = fold apply_update us s"

text \<open>
  The effect with dependency \<open>[audioUrl]\<close>: it runs after a render in which \<open>audioUrl\<close>
  differs from the previous render, and starts playback when there is a locator and an
  \<open>audio\<close> element.
\<close>

definition audioEffect :: "page \<Rightarrow> page" where
  "audioEffect s =
     (if truthy (audioUrlState s) then
        (case audioPlayerRef s of
           None \<Rightarrow> s
         | Some a \<Rightarrow>
             s\<lparr>audioPlayerRef := Some (a\<lparr>src := audioUrlState s, paused := False\<rparr>),
               playPromises := Suc (playPromises s)\<rparr>)
      else s)"

definition render :: "page \<Rightarrow> page \<Rightarrow> page" where
  "render prev s = (if audioUrlState s = audioUrlState prev then s else audioEffect s)"

definition dispatch :: "(page \<Rightarrow> page \<times> update list) \<Rightarrow> page \<Rightarrow> page" where
  "dispatch handler s = (case handler s of (s1, us) \<Rightarrow> render s (commit s1 us))"

subsection \<open>Handlers\<close>

text \<open>
  The first effect runs once, after the first render, when the refs are bound. Its argument
  says whether the browser has a \<open>SpeechRecognition\<close> constructor.
\<close>

definition mount :: "bool \<Rightarrow> page \<Rightarrow> page \<times> update list" where
  "mount supported s =
     (let s0 = s\<lparr>audioPlayerRef := Some \<lparr>src = None, paused = True, currentTime = 0\<rparr>\<rparr>
      in if supported then
           (s0\<lparr>recognitionRef :=
                 Some \<lparr>continuous = False, interimResults = True, lang = js ''en-US'',
                       capturing = False\<rparr>\<rparr>,
            [SetIsSpeechApiSupported True])
         else (s0, [SetIsSpeechApiSupported False]))"

definition handleUserTurnEnd :: "jsstring \<Rightarrow> page \<Rightarrow> page \<times> update list" where
  "handleUserTurnEnd t s =
     (if t = [] then (s, [])
      else (s\<lparr>mutations := Suc (mutations s),
              inFlight := inFlight s @ [(Suc (mutations s), t)]\<rparr>,
            [AppendConversation \<lparr>speaker = User, msgText = t\<rparr>,
             SetUserTranscript [],
             SetIsAiSpeaking True,
             SetAiResponse (js ''...'')]))"

text \<open>
  A result event of the recognition: the results from \<open>resultIndex\<close> on, each with the
  transcripts of its alternatives. \<open>results[i]?.[0]?.transcript\<close> is \<open>undefined\<close> when a
  result has no alternative, and \<open>+=\<close> then appends the text \<open>undefined\<close>.
\<close>

record speech_result =
  isFinal :: bool
  alternatives :: "jsstring list"

record speech_event =
  resultIndex :: nat
  results :: "speech_result list"

definition transcript0 :: "speech_result \<Rightarrow> jsstring" where
  "transcript0 r = (case alternatives r of [] \<Rightarrow> js ''undefined'' | t # _ \<Rightarrow> t)"

text \<open>The \<open>for\<close> loop of \<open>onresult\<close>, on the pair \<open>(interimTranscript, finalTranscript)\<close>.\<close>

fun transcripts :: "speech_result list \<Rightarrow> jsstring \<times> jsstring \<Rightarrow> jsstring \<times> jsstring" where
  "transcripts [] acc = acc"
| "transcripts (r # rs) (interimTranscript, finalTranscript) =
     (if isFinal r then transcripts rs (interimTranscript, finalTranscript @ transcript0 r)
      else transcripts rs (interimTranscript @ transcript0 r, finalTranscript))"

definition onresult :: "speech_event \<Rightarrow> page \<Rightarrow> page \<times> update list" where
  "onresult event s =
     (case transcripts (drop (resultIndex event) (results event)) ([], []) of
        (interimTranscript, finalTranscript) \<Rightarrow>
          if finalTranscript \<noteq> [] then
            (case handleUserTurnEnd (trim finalTranscript) s of
               (s1, us) \<Rightarrow> (s1, SetUserTranscript finalTranscript # us))
          else (s, [SetUserTranscript interimTranscript]))"

definition stopCapture :: "recognition option \<Rightarrow> recognition option" where
  "stopCapture r = map_option (\<lambda>i. i\<lparr>capturing := False\<rparr>) r"

definition onerror :: "page \<Rightarrow> page \<times> update list" where
  "onerror s = (s\<lparr>recognitionRef := stopCapture (recognitionRef s)\<rparr>, [SetIsRecording False])"

text \<open>
  \<open>onend\<close> is created by the effect that runs once, so the \<open>isRecording\<close> it reads is the
  constant of the first render.
\<close>

definition onend :: "page \<Rightarrow> page \<times> update list" where
  "onend s =
     (s\<lparr>recognitionRef := stopCapture (recognitionRef s)\<rparr>,
      if isRecording initial then [SetIsRecording False] else [])"

text \<open>
  \<open>handleMicClick\<close>. With no \<open>audio\<close> element, \<open>audioPlayerRef.current!.currentTime = 0\<close>
  throws, before any setter is called.
\<close>

definition handleMicClick :: "page \<Rightarrow> exn + page \<times> update list" where
  "handleMicClick s =
     (case recognitionRef s of
        None \<Rightarrow> Inr (s, [])
      | Some r \<Rightarrow>
          if isRecording s then
            Inr (s\<lparr>recognitionRef := Some (r\<lparr>capturing := False\<rparr>)\<rparr>, [SetIsRecording False])
          else if isAiSpeaking s then
            (case audioPlayerRef s of
               None \<Rightarrow> Inl TypeError
             | Some a \<Rightarrow>
                 Inr (s\<lparr>audioPlayerRef := Some (a\<lparr>paused := True, currentTime := 0\<rparr>),
                        recognitionRef := Some (r\<lparr>capturing := True\<rparr>)\<rparr>,
                      [SetAudioUrl None, SetIsAiSpeaking False, SetUserTranscript [],
                       SetIsRecording True]))
          else
            Inr (s\<lparr>recognitionRef := Some (r\<lparr>capturing := True\<rparr>)\<rparr>,
                 [SetUserTranscript [], SetIsRecording True]))"

text \<open>The callbacks of \<open>sendTurnMutation\<close>.\<close>

definition onSuccess :: "data \<Rightarrow> page \<Rightarrow> page \<times> update list" where
  "onSuccess d s =
     (s, [SetAiResponse (aiText d),
          AppendConversation \<lparr>speaker = Ai, msgText = aiText d\<rparr>,
          SetAudioUrl (audioUrl d),
          SetIsAiSpeaking False])"

definition onError :: "page \<Rightarrow> page \<times> update list" where
  "onError s =
     (s, [SetAiResponse (js ''Error communicating with AI. Please try again.''),
          AppendConversation
            \<lparr>speaker = Ai, msgText = js ''Error communicating with AI. Please try again.''\<rparr>,
          SetAudioUrl None,
          SetIsAiSpeaking False])"

text \<open>The callbacks of the promise of \<open>play()\<close>, and \<open>onEnded\<close> and \<open>onError\<close> of the element.\<close>

definition playResolved :: "page \<Rightarrow> page \<times> update list" where
  "playResolved s = (s\<lparr>playPromises := playPromises s - 1\<rparr>, [SetIsAiSpeaking True])"

definition playRejected :: "page \<Rightarrow> page \<times> update list" where
  "playRejected s =
     (s\<lparr>playPromises := playPromises s - 1\<rparr>, [SetIsAiSpeaking False, SetAudioUrl None])"

definition audioStopped :: "page \<Rightarrow> page \<times> update list" where
  "audioStopped s =
     (s\<lparr>audioPlayerRef := map_option (\<lambda>a. a\<lparr>paused := True\<rparr>) (audioPlayerRef s)\<rparr>,
      [SetIsAiSpeaking False, SetAudioUrl None])"

subsection \<open>Events\<close>

datatype event =
    Mount bool
  | MicClick
  | Result speech_event
  | RecognitionError
  | RecognitionEnd
  | TurnSuccess nat data
  | TurnError nat
  | PlayResolved
  | PlayRejected
  | AudioEnded
  | AudioError

text \<open>
  One event: its handler runs, the queued updates are committed, the page renders. The
  settlement of a request names the request by its number and takes it out of \<open>inFlight\<close>;
  the callbacks given to \<open>useMutation\<close> run for every request, the latest or not.
\<close>

fun step :: "event \<Rightarrow> page \<Rightarrow> exn + page" where
  "step (Mount supported) s = Inr (dispatch (mount supported) s)"
| "step MicClick s =
     (case handleMicClick s of
        Inl error \<Rightarrow> Inl error
      | Inr (s1, us) \<Rightarrow> Inr (render s (commit s1 us)))"
| "step (Result e) s = Inr (dispatch (onresult e) s)"
| "step RecognitionError s = Inr (dispatch onerror s)"
| "step RecognitionEnd s = Inr (dispatch onend s)"
| "step (TurnSuccess i d) s =
     Inr (dispatch (onSuccess d) (s\<lparr>inFlight := filter (\<lambda>r. fst r \<noteq> i) (inFlight s)\<rparr>))"
| "step (TurnError i) s =
     Inr (dispatch onError (s\<lparr>inFlight := filter (\<lambda>r. fst r \<noteq> i) (inFlight s)\<rparr>))"
| "step PlayResolved s = Inr (dispatch playResolved s)"
| "step PlayRejected s = Inr (dispatch playRejected s)"
| "step AudioEnded s = Inr (dispatch audioStopped s)"
| "step AudioError s = Inr (dispatch audioStopped s)"

fun run :: "event list \<Rightarrow> page \<Rightarrow> exn + page" where
  "run [] s = Inr s"
| "run (ev # evs) s = (case step ev s of Inl error \<Rightarrow> Inl error | Inr s' \<Rightarrow> run evs s')"

text \<open>The value of \<open>finalTranscript\<close> after the loop of \<open>onresult\<close>.\<close>

definition finalTranscript :: "speech_event \<Rightarrow> jsstring" where
  "finalTranscript event = snd (transcripts (drop (resultIndex event) (results event)) ([], []))"

text \<open>
  What the browser can deliver, and when. The mount effect runs once, after the first
  render. The recognition events come from the instance, the settlement of a request from
  a request in flight, the settlement of \<open>play()\<close> from a pending promise, the events of
  the \<open>audio\<close> element from the element. A click is always possible: the handler itself
  returns when there is no recognition instance.
\<close>

fun enabled :: "event \<Rightarrow> page \<Rightarrow> bool" where
  "enabled (Mount supported) s = (s = initial)"
| "enabled MicClick s = True"
| "enabled (Result e) s = (recognitionRef s \<noteq> None)"
| "enabled RecognitionError s = (recognitionRef s \<noteq> None)"
| "enabled RecognitionEnd s = (recognitionRef s \<noteq> None)"
| "enabled (TurnSuccess i d) s = (i \<in> set (map fst (inFlight s)))"
| "enabled (TurnError i) s = (i \<in> set (map fst (inFlight s)))"
| "enabled PlayResolved s = (0 < playPromises s)"
| "enabled PlayRejected s = (0 < playPromises s)"
| "enabled AudioEnded s = (audioPlayerRef s \<noteq> None)"
| "enabled AudioError s = (audioPlayerRef s \<noteq> None)"

text \<open>A sequence of events each of which can be delivered in the state it meets.\<close>

fun deliverable :: "event list \<Rightarrow> page \<Rightarrow> bool" where
  "deliverable [] s = True"
| "deliverable (ev # evs) s =
     (enabled ev s \<and> (case step ev s of Inl error \<Rightarrow> False | Inr s' \<Rightarrow> deliverable evs s'))"

subsection \<open>The phase\<close>

text \<open>
  \<open>sendTurnMutation.isLoading\<close> follows the latest call of \<open>mutate\<close> only: it holds while
  that call has no response, whatever earlier calls are still open.
\<close>

definition isLoading :: "page \<Rightarrow> bool" where
  "isLoading s = (mutations s \<in> set (map fst (inFlight s)))"

text \<open>
  The page has no phase variable. The phase is what the page displays: its status line,
  \<open>isRecording ? "Listening..." : isAiSpeaking ? "AI Speaking..." : "Ready"\<close>, where the
  transcript pane tells waiting for the reply from speaking by
  \<open>sendTurnMutation.isLoading\<close>. It is a reading of the two flags, not of the \<open>audio\<close>
  element: while \<open>isRecording\<close> is set the page displays listening, whether or not a reply
  is being played.
\<close>

datatype turnPhase = Idle | Listening | AwaitingReply | Speaking

definition phase :: "page \<Rightarrow> turnPhase" where
  "phase s =
     (if isRecording s then Listening
      else if isAiSpeaking s then (if isLoading s then AwaitingReply else Speaking)
      else Idle)"

section \<open>Notions used by the properties\<close>

text \<open>
  The chat-completion call succeeds when \<open>fetch\<close> resolves with an \<open>ok\<close> response whose
  body has a first choice with a truthy string as content: the branch of
  \<open>getGroqResponse\<close> that logs success. \<open>chatContent\<close> is that content. Everything
  else (a rejected \<open>fetch\<close>, a status that is not 2xx, a body that cannot be read, a
  missing or empty content, a content that is no string) is a failed call.
\<close>

definition chatContent :: "fetch_result \<Rightarrow> jsstring option" where
  "chatContent fetch =
     (case fetch of
        FetchRejected \<Rightarrow> None
      | FetchResolved response \<Rightarrow>
          if ok response then
            (case jsonBody response of
               Some (FirstChoice (ContentString content)) \<Rightarrow>
                 if content \<noteq> [] then Some content else None
             | _ \<Rightarrow> None)
          else None)"

text \<open>
  The reply is being played when the \<open>audio\<close> element has a source and is not paused.
\<close>

definition playing :: "page \<Rightarrow> bool" where
  "playing s = (case audioPlayerRef s of None \<Rightarrow> False | Some a \<Rightarrow> src a \<noteq> None \<and> \<not> paused a)"

text \<open>
  What holds of the refs on every page that can be reached: without a recognition instance
  nothing has been said, sent or played; with one, the \<open>audio\<close> element is bound.
\<close>

definition bound :: "page \<Rightarrow> bool" where
  "bound s =
     (if recognitionRef s = None
      then \<not> isAiSpeaking s \<and> inFlight s = [] \<and> playPromises s = 0 \<and> audioUrlState s = None
      else audioPlayerRef s \<noteq> None)"

text \<open>Sample collaborators for the concrete instances.\<close>

definition configured :: env where
  "configured = \<lparr>FAL_API_KEY = Some (js ''fal-key''), GROQ_API_KEY = Some (js ''groq-key'')\<rparr>"

definition completion :: "jsstring \<Rightarrow> fetch_result" where
  "completion content =
     FetchResolved \<lparr>ok = True, statusText = js ''OK'', textBody = Some [],
                    jsonBody = Some (FirstChoice (ContentString content))\<rparr>"

definition voice :: fal_service where
  "voice t = FalAudioUrl (js ''https://fal.media/a.wav'')"

definition silent :: fal_service where
  "silent t = FalRejected"

definition hello :: data where
  "hello = \<lparr>aiText = js ''Hello.'', audioUrl = Some (js ''https://fal.media/a.wav'')\<rparr>"

definition heard :: "bool \<Rightarrow> jsstring \<Rightarrow> speech_event" where
  "heard final t = \<lparr>resultIndex = 0, results = [\<lparr>isFinal = final, alternatives = [t]\<rparr>]\<rparr>"

text \<open>
  A page on which the reply is being played: the user starts and stops the capture, the
  utterance is final, the response arrives, playback starts.
\<close>

definition playingReply :: "event list" where
  "playingReply =
     [Mount True, MicClick, MicClick, Result (heard True (js ''hi'')), TurnSuccess 1 hello,
      PlayResolved]"

text \<open>
  The same turn when the user lets the recognition end by itself instead of clicking.
\<close>

definition ordinaryTurn :: "event list" where
  "ordinaryTurn =
     [Mount True, MicClick, Result (heard True (js ''hi'')), RecognitionEnd,
      TurnSuccess 1 hello, PlayResolved]"

text \<open>The turn of \<open>playingReply\<close> up to the response: \<open>play()\<close> is called and not settled yet.\<close>

definition startingReply :: "event list" where
  "startingReply =
     [Mount True, MicClick, MicClick, Result (heard True (js ''hi'')), TurnSuccess 1 hello]"

text \<open>
  A turn that is superseded: the user starts and stops the capture, the utterance is final
  and its request is sent, and the user clicks again before the response arrives.
\<close>

definition awaiting :: "event list" where
  "awaiting = [Mount True, MicClick, MicClick, Result (heard True (js ''hi''))]"

definition superseded :: "event list" where
  "superseded = awaiting @ [MicClick]"

section \<open>Properties of the markdown stripping\<close>

lemmas strip_eval =
  js_def delimited_def codeBlock_def header_def link_def symbol_def stripMarkdown_def
  isLineTerminator_def Let_def

text \<open>
  Claim C5. The markdown stripping maps \<open>**bold** and _italic_ and `code`\<close> to
  \<open>bold and italic and code\<close>, and the two lines \<open># Heading\<close> and \<open>[link](http://x)\<close>,
  separated by a line feed, to the two lines \<open>Heading\<close> and \<open>link\<close>. The same holds when
  the two are separated by a backslash (0x5C) and the letter \<open>n\<close> instead of a line feed.
\<close>

theorem C5_stripMarkdown_examples:
  "stripMarkdown (js ''**bold** and _italic_ and `code`'') = js ''bold and italic and code''
   \<and> stripMarkdown (js ''# Heading'' @ [0x0A] @ js ''[link](http://x)'')
       = js ''Heading'' @ [0x0A] @ js ''link''
   \<and> stripMarkdown (js ''# Heading'' @ [0x5C] @ js ''n[link](http://x)'')
       = js ''Heading'' @ [0x5C] @ js ''nlink''"
  by (simp add: strip_eval)

section \<open>Properties of the turn procedure\<close>

subsection \<open>The two helpers always return\<close>

lemma getFalTtsAudioUrl_total: "\<exists>url. getFalTtsAudioUrl fal t = Inr url"
  by (simp add: getFalTtsAudioUrl_def split: sum.split)

lemma getFalTtsAudioUrl_failed:
  "\<forall>u. fal t \<noteq> FalAudioUrl u \<Longrightarrow> getFalTtsAudioUrl fal t = Inr None"
  by (cases "fal t") (auto simp: getFalTtsAudioUrl_def fal_try_def)

lemma getGroqResponse_total: "\<exists>s. getGroqResponse e fetch t = Inr (Some s)"
  by (auto simp: getGroqResponse_def groq_try_def
      split: sum.split fetch_result.split option.split groq_data.split chat_content.split)

lemma getGroqResponse_unconfigured:
  "\<not> truthy (GROQ_API_KEY e) \<Longrightarrow>
   getGroqResponse e fetch t = Inr (Some (js ''Error: Groq API key not configured.''))"
  by (simp add: getGroqResponse_def)

lemma getGroqResponse_success:
  "truthy (GROQ_API_KEY e) \<Longrightarrow> chatContent fetch = Some c \<Longrightarrow>
   getGroqResponse e fetch t = Inr (Some (trim c))"
  by (auto simp: getGroqResponse_def groq_try_def chatContent_def
      split: fetch_result.splits option.splits groq_data.splits chat_content.splits if_splits)

lemma getGroqResponse_failure:
  "truthy (GROQ_API_KEY e) \<Longrightarrow> chatContent fetch = None \<Longrightarrow>
   getGroqResponse e fetch t = Inr (Some (js ''Error sending request to Groq API.''))
   \<or> getGroqResponse e fetch t = Inr (Some (js ''No response text found from Groq API.''))
   \<or> (\<exists>response. fetch = FetchResolved response \<and> \<not> ok response \<and>
         getGroqResponse e fetch t
           = Inr (Some (js ''Error communicating with Groq API: '' @ statusText response)))"
  by (auto simp: getGroqResponse_def groq_try_def chatContent_def
      split: fetch_result.splits option.splits groq_data.splits chat_content.splits if_splits)

subsection \<open>What \<open>sendTurn\<close> returns, by the reply of the chat helper\<close>

text \<open>
  For a valid input the procedure returns normally. The text handed to the synthesis is the
  fixed default for an empty reply, the reply itself when it starts with \<open>Error:\<close>, and the
  stripped reply otherwise; the text returned for display is the default for an empty
  reply and the reply otherwise.
\<close>

lemma sendTurn_reply:
  assumes "t \<noteq> []" and "getGroqResponse e fetch t = Inr (Some s)"
  shows "\<exists>url. 
     getFalTtsAudioUrl fal
       (if s = [] then js ''Sorry, I encountered an error.''
        else if startsWith s (js ''Error:'') then s else stripMarkdown s) = Inr url \<and>
     sendTurn e fetch fal t =
       Inr \<lparr>reply = \<lparr>aiText = (if s = [] then js ''Sorry, I encountered an error.'' else s),
                      audioUrl = url\<rparr>,
            ttsCalls = [if s = [] then js ''Sorry, I encountered an error.''
                        else if startsWith s (js ''Error:'') then s else stripMarkdown s]\<rparr>"
proof -
  obtain url where "getFalTtsAudioUrl fal
       (if s = [] then js ''Sorry, I encountered an error.''
        else if startsWith s (js ''Error:'') then s else stripMarkdown s) = Inr url"
    using getFalTtsAudioUrl_total by blast
  with assms show ?thesis
    by (auto simp: sendTurn_def Let_def)
qed

lemma sendTurn_total:
  assumes "t \<noteq> []"
  shows "\<exists>r x. sendTurn e fetch fal t = Inr r \<and> ttsCalls r = [x]
            \<and> getFalTtsAudioUrl fal x = Inr (audioUrl (reply r))"
proof -
  obtain s where "getGroqResponse e fetch t = Inr (Some s)"
    using getGroqResponse_total by blast
  from sendTurn_reply [OF assms this, of fal] show ?thesis
    by auto
qed

lemma error_texts:
  "js ''Error sending request to Groq API.'' \<noteq> []"
  "js ''No response text found from Groq API.'' \<noteq> []"
  "js ''Error communicating with Groq API: '' @ st \<noteq> []"
  "js ''Error: Groq API key not configured.'' \<noteq> []"
  "\<not> startsWith (js ''Error sending request to Groq API.'') (js ''Error:'')"
  "\<not> startsWith (js ''No response text found from Groq API.'') (js ''Error:'')"
  "\<not> startsWith (js ''Error communicating with Groq API: '' @ st) (js ''Error:'')"
  "startsWith (js ''Error: Groq API key not configured.'') (js ''Error:'')"
  by (simp_all add: js_def startsWith_def)

lemmas turn_eval =
  sendTurn_def getGroqResponse_def groq_try_def getFalTtsAudioUrl_def fal_try_def
  configured_def completion_def voice_def silent_def truthy_def trim_def isTrimmable_def
  startsWith_def chatContent_def Let_def

subsection \<open>Failure of the chat completion\<close>

text \<open>
  Claim C3. When the chat-completion call fails (a rejected \<open>fetch\<close>, a status that is not
  2xx, a missing content, or anything else short of a completion), \<open>sendTurn\<close> returns
  normally and its \<open>aiText\<close> is the error text that the chat helper produced: the text for
  a missing key, for a request that could not be sent, for a missing content, or the one
  that carries the status text of the response.
\<close>

theorem C3_chat_failure_text:
  assumes "input \<noteq> []" and "chatContent fetch = None"
  shows "\<exists>r. sendTurn e fetch fal input = Inr r
           \<and> getGroqResponse e fetch input = Inr (Some (aiText (reply r)))
           \<and> (aiText (reply r) = js ''Error: Groq API key not configured.''
              \<or> aiText (reply r) = js ''Error sending request to Groq API.''
              \<or> aiText (reply r) = js ''No response text found from Groq API.''
              \<or> (\<exists>response. fetch = FetchResolved response
                    \<and> aiText (reply r)
                        = js ''Error communicating with Groq API: '' @ statusText response))"
proof -
  obtain s where s: "getGroqResponse e fetch input = Inr (Some s)"
    using getGroqResponse_total by blast
  have cases: "s = js ''Error: Groq API key not configured.''
      \<or> s = js ''Error sending request to Groq API.''
      \<or> s = js ''No response text found from Groq API.''
      \<or> (\<exists>response. fetch = FetchResolved response
            \<and> s = js ''Error communicating with Groq API: '' @ statusText response)"
  proof (cases "truthy (GROQ_API_KEY e)")
    case True
    from getGroqResponse_failure [OF True assms(2), of input] s show ?thesis
      by auto
  next
    case False
    from getGroqResponse_unconfigured [OF False, of fetch input] s show ?thesis
      by simp
  qed
  then have "s \<noteq> []"
    using error_texts(1-4) by auto
  with sendTurn_reply [OF assms(1) s, of fal] s cases show ?thesis
    by auto
qed

text \<open>The instance of C3 for a request that cannot be sent.\<close>

theorem C3_chat_failure_text_witness:
  "js ''hi'' \<noteq> [] \<and> chatContent FetchRejected = None
   \<and> (\<exists>r. sendTurn configured FetchRejected voice (js ''hi'') = Inr r
          \<and> aiText (reply r) = js ''Error sending request to Groq API.'')"
  using C3_chat_failure_text [of "js ''hi''" FetchRejected configured voice]
  by (auto simp: js_def chatContent_def getGroqResponse_def groq_try_def configured_def
      truthy_def)

subsection \<open>Which text is spoken and which is displayed\<close>

text \<open>
  Claim C4 as stated fails. A completion whose text starts with \<open>Error:\<close> is a successful
  call, yet its text goes to the synthesis with its markdown; a completion that is only
  white space is a successful call, yet the default text is returned and spoken.
\<close>

theorem C4_counterexample:
  "chatContent (completion (js ''Error: **x**'')) = Some (js ''Error: **x**'')
   \<and> sendTurn configured (completion (js ''Error: **x**'')) voice (js ''hi'')
       = Inr \<lparr>reply = \<lparr>aiText = js ''Error: **x**'',
                       audioUrl = Some (js ''https://fal.media/a.wav'')\<rparr>,
              ttsCalls = [js ''Error: **x**'']\<rparr>
   \<and> stripMarkdown (js ''Error: **x**'') = js ''Error: x''
   \<and> chatContent (completion (js '' '')) = Some (js '' '')
   \<and> sendTurn configured (completion (js '' '')) voice (js ''hi'')
       = Inr \<lparr>reply = \<lparr>aiText = js ''Sorry, I encountered an error.'',
                       audioUrl = Some (js ''https://fal.media/a.wav'')\<rparr>,
              ttsCalls = [js ''Sorry, I encountered an error.'']\<rparr>"
  by (simp add: turn_eval strip_eval)

text \<open>
  Claim C4, amended. With the chat key configured: when the call succeeds, the reply is the
  trimmed content. A reply that is not empty and does not start with \<open>Error:\<close> is
  stripped of markdown for the synthesis and returned as it is for display. For an empty
  reply the default text, and for a reply that starts with \<open>Error:\<close> the reply itself, is
  both spoken and displayed, not stripped. When the call fails, the error text of the
  helper is treated as a reply of the first kind: stripped for the synthesis, returned as
  it is for display.
\<close>

theorem C4_sanitized_for_speech:
  assumes "input \<noteq> []" and "truthy (GROQ_API_KEY e)"
  shows "(\<forall>c. chatContent fetch = Some c \<longrightarrow>
            (\<exists>url. sendTurn e fetch fal input =
               Inr (if trim c = [] then
                      \<lparr>reply = \<lparr>aiText = js ''Sorry, I encountered an error.'', audioUrl = url\<rparr>,
                       ttsCalls = [js ''Sorry, I encountered an error.'']\<rparr>
                    else if startsWith (trim c) (js ''Error:'') then
                      \<lparr>reply = \<lparr>aiText = trim c, audioUrl = url\<rparr>, ttsCalls = [trim c]\<rparr>
                    else
                      \<lparr>reply = \<lparr>aiText = trim c, audioUrl = url\<rparr>,
                       ttsCalls = [stripMarkdown (trim c)]\<rparr>)))
       \<and> (chatContent fetch = None \<longrightarrow>
            (\<exists>s url. getGroqResponse e fetch input = Inr (Some s)
               \<and> sendTurn e fetch fal input =
                   Inr \<lparr>reply = \<lparr>aiText = s, audioUrl = url\<rparr>,
                        ttsCalls = [stripMarkdown s]\<rparr>))"
proof (intro conjI allI impI)
  fix c
  assume "chatContent fetch = Some c"
  then have "getGroqResponse e fetch input = Inr (Some (trim c))"
    using assms(2) by (rule getGroqResponse_success [rotated])
  from sendTurn_reply [OF assms(1) this, of fal]
  show "\<exists>url. sendTurn e fetch fal input =
               Inr (if trim c = [] then
                      \<lparr>reply = \<lparr>aiText = js ''Sorry, I encountered an error.'', audioUrl = url\<rparr>,
                       ttsCalls = [js ''Sorry, I encountered an error.'']\<rparr>
                    else if startsWith (trim c) (js ''Error:'') then
                      \<lparr>reply = \<lparr>aiText = trim c, audioUrl = url\<rparr>, ttsCalls = [trim c]\<rparr>
                    else
                      \<lparr>reply = \<lparr>aiText = trim c, audioUrl = url\<rparr>,
                       ttsCalls = [stripMarkdown (trim c)]\<rparr>)"
    by auto
next
  assume "chatContent fetch = None"
  from getGroqResponse_failure [OF assms(2) this, of input]
  obtain s where s: "getGroqResponse e fetch input = Inr (Some s)"
    and "s \<noteq> []" and "\<not> startsWith s (js ''Error:'')"
    using error_texts by metis
  with sendTurn_reply [OF assms(1) s, of fal]
  show "\<exists>s url. getGroqResponse e fetch input = Inr (Some s)
               \<and> sendTurn e fetch fal input =
                   Inr \<lparr>reply = \<lparr>aiText = s, audioUrl = url\<rparr>,
                        ttsCalls = [stripMarkdown s]\<rparr>"
    by auto
qed

text \<open>The instances of C4 for a completion in bold and for a request that cannot be sent.\<close>

theorem C4_sanitized_for_speech_witness:
  "js ''hi'' \<noteq> [] \<and> truthy (GROQ_API_KEY configured)
   \<and> chatContent (completion (js ''**hi**'')) = Some (js ''**hi**'')
   \<and> (\<exists>url. sendTurn configured (completion (js ''**hi**'')) voice (js ''hi'')
          = Inr \<lparr>reply = \<lparr>aiText = js ''**hi**'', audioUrl = url\<rparr>, ttsCalls = [js ''hi'']\<rparr>)
   \<and> chatContent FetchRejected = None
   \<and> (\<exists>url. sendTurn configured FetchRejected voice (js ''hi'')
          = Inr \<lparr>reply = \<lparr>aiText = js ''Error sending request to Groq API.'', audioUrl = url\<rparr>,
                 ttsCalls = [js ''Error sending request to Groq API.'']\<rparr>)"
  using C4_sanitized_for_speech [of "js ''hi''" configured "completion (js ''**hi**'')" voice]
    C4_sanitized_for_speech [of "js ''hi''" configured FetchRejected voice]
  by (simp add: turn_eval strip_eval)

subsection \<open>Failure of the speech synthesis\<close>

text \<open>
  Claim C6. For every valid input and every behaviour of the two providers, \<open>sendTurn\<close>
  returns normally, after one call of the synthesis; when that call fails (the provider
  gives no locator for the text it was asked to speak), the returned \<open>audioUrl\<close> is null.
\<close>

theorem C6_synthesis_failure_is_null:
  assumes "input \<noteq> []"
  shows "\<exists>r x. sendTurn e fetch fal input = Inr r \<and> ttsCalls r = [x]
           \<and> ((\<forall>url. fal x \<noteq> FalAudioUrl url) \<longrightarrow> audioUrl (reply r) = None)"
proof -
  from sendTurn_total [OF assms, of e fetch fal]
  obtain r x where r: "sendTurn e fetch fal input = Inr r" "ttsCalls r = [x]"
    "getFalTtsAudioUrl fal x = Inr (audioUrl (reply r))"
    by blast
  have "audioUrl (reply r) = None" if "\<forall>url. fal x \<noteq> FalAudioUrl url"
    using getFalTtsAudioUrl_failed [of fal x] that r(3) by simp
  with r show ?thesis
    by blast
qed

text \<open>The instance of C6 for a synthesis provider that rejects every request.\<close>

theorem C6_synthesis_failure_is_null_witness:
  "js ''hi'' \<noteq> []
   \<and> (\<exists>r x. sendTurn configured (completion (js ''Hello.'')) silent (js ''hi'') = Inr r
          \<and> ttsCalls r = [x] \<and> (\<forall>url. silent x \<noteq> FalAudioUrl url)
          \<and> audioUrl (reply r) = None)"
  using C6_synthesis_failure_is_null
    [of "js ''hi''" configured "completion (js ''Hello.'')" silent]
  by (auto simp: js_def silent_def)

subsection \<open>Startup\<close>

text \<open>
  Claim C8. When one of the two API keys is absent, loading the module throws, so there is
  no router and no procedure to serve a request. When the module has loaded, every call of
  the procedure with a valid input returns normally, whatever the providers do.
\<close>

theorem C8_missing_key_aborts_startup:
  "(FAL_API_KEY e = None \<or> GROQ_API_KEY e = None \<longrightarrow>
      debateRouter e = Inl (Error (js ''FAL_API_KEY environment variable is not set.''))
      \<or> debateRouter e = Inl (Error (js ''GROQ_API_KEY environment variable is not set.'')))
   \<and> (\<forall>procedure. debateRouter e = Inr procedure \<and> input \<noteq> [] \<longrightarrow>
         (\<exists>r. procedure fetch fal input = Inr r))"
proof (intro conjI allI impI)
  assume "FAL_API_KEY e = None \<or> GROQ_API_KEY e = None"
  then show "debateRouter e = Inl (Error (js ''FAL_API_KEY environment variable is not set.''))
      \<or> debateRouter e = Inl (Error (js ''GROQ_API_KEY environment variable is not set.''))"
    by (auto simp: debateRouter_def truthy_def)
next
  fix procedure
  assume a: "debateRouter e = Inr procedure \<and> input \<noteq> []"
  then have "procedure = sendTurn e"
    by (auto simp: debateRouter_def split: if_splits)
  with a sendTurn_total [of input e fetch fal]
  show "\<exists>r. procedure fetch fal input = Inr r"
    by auto
qed

text \<open>The instances of C8 for a missing chat key and for a complete configuration.\<close>

theorem C8_missing_key_aborts_startup_witness:
  "GROQ_API_KEY \<lparr>FAL_API_KEY = Some (js ''fal-key''), GROQ_API_KEY = None\<rparr> = None
   \<and> debateRouter \<lparr>FAL_API_KEY = Some (js ''fal-key''), GROQ_API_KEY = None\<rparr>
       = Inl (Error (js ''GROQ_API_KEY environment variable is not set.''))
   \<and> debateRouter configured = Inr (sendTurn configured) \<and> js ''hi'' \<noteq> []
   \<and> (\<exists>r. sendTurn configured FetchRejected silent (js ''hi'') = Inr r)"
  using C8_missing_key_aborts_startup
    [of "\<lparr>FAL_API_KEY = Some (js ''fal-key''), GROQ_API_KEY = None\<rparr>" "js ''hi''"
        FetchRejected silent]
    C8_missing_key_aborts_startup [of configured "js ''hi''" FetchRejected silent]
  by (auto simp: debateRouter_def truthy_def configured_def js_def)

subsection \<open>The reply of the chat helper\<close>

text \<open>
  Claim C9 as stated fails. A completion of two spaces is truthy, so the helper trims and
  returns it: the empty string. \<open>sendTurn\<close> then uses its default text.
\<close>

theorem C9_counterexample:
  "getGroqResponse configured (completion (js ''  '')) (js ''hi'') = Inr (Some [])
   \<and> sendTurn configured (completion (js ''  '')) silent (js ''hi'')
       = Inr \<lparr>reply = \<lparr>aiText = js ''Sorry, I encountered an error.'', audioUrl = None\<rparr>,
              ttsCalls = [js ''Sorry, I encountered an error.'']\<rparr>"
  by (simp add: turn_eval js_def)

text \<open>
  Claim C9, amended. The chat helper never returns null and never throws: it returns a
  string. The string is empty exactly when the key is configured and the call succeeds
  with a content that is only white space; then \<open>sendTurn\<close> returns its default text. The
  \<open>aiText\<close> that \<open>sendTurn\<close> returns is never empty.
\<close>

theorem C9_reply_is_a_string:
  "(\<exists>s. getGroqResponse e fetch input = Inr (Some s)
        \<and> (s = [] \<longleftrightarrow>
             truthy (GROQ_API_KEY e) \<and> (\<exists>c. chatContent fetch = Some c \<and> trim c = [])))
   \<and> (input \<noteq> [] \<longrightarrow>
        (\<exists>r. sendTurn e fetch fal input = Inr r \<and> aiText (reply r) \<noteq> []
           \<and> (getGroqResponse e fetch input = Inr (Some []) \<longrightarrow>
                aiText (reply r) = js ''Sorry, I encountered an error.'')))"
proof (intro conjI impI)
  obtain s where s: "getGroqResponse e fetch input = Inr (Some s)"
    using getGroqResponse_total by blast
  have "s = [] \<longleftrightarrow> truthy (GROQ_API_KEY e) \<and> (\<exists>c. chatContent fetch = Some c \<and> trim c = [])"
  proof (cases "truthy (GROQ_API_KEY e)")
    case False
    with getGroqResponse_unconfigured [OF False, of fetch input] s error_texts(4)
    show ?thesis by auto
  next
    case True
    show ?thesis
    proof (cases "chatContent fetch")
      case None
      with getGroqResponse_failure [OF True None, of input] s error_texts(1-3)
      show ?thesis by auto
    next
      case (Some c)
      with getGroqResponse_success [OF True Some, of input] s True
      show ?thesis by auto
    qed
  qed
  with s show "\<exists>s. getGroqResponse e fetch input = Inr (Some s)
        \<and> (s = [] \<longleftrightarrow>
             truthy (GROQ_API_KEY e) \<and> (\<exists>c. chatContent fetch = Some c \<and> trim c = []))"
    by blast
next
  assume input: "input \<noteq> []"
  obtain s where s: "getGroqResponse e fetch input = Inr (Some s)"
    using getGroqResponse_total by blast
  have "js ''Sorry, I encountered an error.'' \<noteq> []"
    by (simp add: js_def)
  with sendTurn_reply [OF input s, of fal] s
  show "\<exists>r. sendTurn e fetch fal input = Inr r \<and> aiText (reply r) \<noteq> []
           \<and> (getGroqResponse e fetch input = Inr (Some []) \<longrightarrow>
                aiText (reply r) = js ''Sorry, I encountered an error.'')"
    by auto
qed

text \<open>The instance of C9 for a completion of a space and a line feed.\<close>

theorem C9_reply_is_a_string_witness:
  "js ''hi'' \<noteq> []
   \<and> getGroqResponse configured (completion [0x20, 0x0A]) (js ''hi'') = Inr (Some [])
   \<and> (\<exists>r. sendTurn configured (completion [0x20, 0x0A]) voice (js ''hi'') = Inr r
          \<and> aiText (reply r) = js ''Sorry, I encountered an error.'')"
  using C9_reply_is_a_string [of configured "completion [0x20, 0x0A]" "js ''hi''" voice]
  by (auto simp: turn_eval js_def)

subsection \<open>The branch for failures\<close>

text \<open>
  Claim C10 as stated fails. The empty reply, which the helper returns for a completion of
  one tab, does not start with \<open>Error:\<close>, and still takes the branch for failures: the
  text returned is the default, not the reply.
\<close>

theorem C10_counterexample:
  "getGroqResponse configured (completion [0x09]) (js ''hi'') = Inr (Some [])
   \<and> \<not> startsWith [] (js ''Error:'')
   \<and> sendTurn configured (completion [0x09]) voice (js ''hi'')
       = Inr \<lparr>reply = \<lparr>aiText = js ''Sorry, I encountered an error.'',
                       audioUrl = Some (js ''https://fal.media/a.wav'')\<rparr>,
              ttsCalls = [js ''Sorry, I encountered an error.'']\<rparr>"
  by (simp add: turn_eval js_def)

text \<open>
  Claim C10, amended. A reply of the chat helper that is not empty and does not start with
  \<open>Error:\<close> is treated as a successful reply: stripped for the synthesis, returned as it
  is for display. Only a reply that starts with \<open>Error:\<close>, which is spoken and returned as
  it is, and the empty reply, for which the default text is spoken and returned, take the
  branch for failures. The error texts of the helper for a request that could not be sent,
  for a missing content and for a status that is not 2xx are treated as successful replies.
\<close>

theorem C10_error_prefix_or_empty:
  assumes "input \<noteq> []" and "getGroqResponse e fetch input = Inr (Some s)"
  shows "(s \<noteq> [] \<and> \<not> startsWith s (js ''Error:'') \<longrightarrow>
            (\<exists>url. sendTurn e fetch fal input =
               Inr \<lparr>reply = \<lparr>aiText = s, audioUrl = url\<rparr>, ttsCalls = [stripMarkdown s]\<rparr>))
       \<and> (s \<noteq> [] \<and> startsWith s (js ''Error:'') \<longrightarrow>
            (\<exists>url. sendTurn e fetch fal input =
               Inr \<lparr>reply = \<lparr>aiText = s, audioUrl = url\<rparr>, ttsCalls = [s]\<rparr>))
       \<and> (s = [] \<longrightarrow>
            (\<exists>url. sendTurn e fetch fal input =
               Inr \<lparr>reply = \<lparr>aiText = js ''Sorry, I encountered an error.'', audioUrl = url\<rparr>,
                    ttsCalls = [js ''Sorry, I encountered an error.'']\<rparr>))
       \<and> (s = js ''Error sending request to Groq API.''
            \<or> s = js ''No response text found from Groq API.''
            \<or> (\<exists>st. s = js ''Error communicating with Groq API: '' @ st) \<longrightarrow>
            (\<exists>url. sendTurn e fetch fal input =
               Inr \<lparr>reply = \<lparr>aiText = s, audioUrl = url\<rparr>, ttsCalls = [stripMarkdown s]\<rparr>))"
proof -
  have "s \<noteq> [] \<and> \<not> startsWith s (js ''Error:'')"
    if "s = js ''Error sending request to Groq API.''
            \<or> s = js ''No response text found from Groq API.''
            \<or> (\<exists>st. s = js ''Error communicating with Groq API: '' @ st)"
    using that error_texts by auto
  with sendTurn_reply [OF assms, of fal] show ?thesis
    by auto
qed

text \<open>The instance of C10 for a request that cannot be sent.\<close>

theorem C10_error_prefix_or_empty_witness:
  "js ''hi'' \<noteq> []
   \<and> getGroqResponse configured FetchRejected (js ''hi'')
       = Inr (Some (js ''Error sending request to Groq API.''))
   \<and> (\<exists>url. sendTurn configured FetchRejected voice (js ''hi'') =
          Inr \<lparr>reply = \<lparr>aiText = js ''Error sending request to Groq API.'', audioUrl = url\<rparr>,
               ttsCalls = [js ''Error sending request to Groq API.'']\<rparr>)"
  using C10_error_prefix_or_empty
    [of "js ''hi''" configured FetchRejected "js ''Error sending request to Groq API.''" voice]
  by (simp add: turn_eval strip_eval)

section \<open>Properties of the page\<close>

subsection \<open>Rendering keeps the state variables\<close>

lemma audioEffect_fields:
  "isRecording (audioEffect s) = isRecording s"
  "isAiSpeaking (audioEffect s) = isAiSpeaking s"
  "conversation (audioEffect s) = conversation s"
  "audioUrlState (audioEffect s) = audioUrlState s"
  "inFlight (audioEffect s) = inFlight s"
  "mutations (audioEffect s) = mutations s"
  "recognitionRef (audioEffect s) = recognitionRef s"
  by (simp_all add: audioEffect_def split: option.split)

lemma render_fields:
  "isRecording (render prev s) = isRecording s"
  "isAiSpeaking (render prev s) = isAiSpeaking s"
  "conversation (render prev s) = conversation s"
  "audioUrlState (render prev s) = audioUrlState s"
  "inFlight (render prev s) = inFlight s"
  "mutations (render prev s) = mutations s"
  "recognitionRef (render prev s) = recognitionRef s"
  by (simp_all add: render_def audioEffect_fields)

lemma phase_render: "phase (render prev s) = phase s"
  by (simp add: phase_def isLoading_def render_fields)

lemma render_no_audio:
  "audioUrlState s = None \<Longrightarrow> render prev s = s"
  by (simp add: render_def audioEffect_def truthy_def)

lemma render_same_audio:
  "audioUrlState s = audioUrlState prev \<Longrightarrow> render prev s = s"
  by (simp add: render_def)

lemma render_player:
  "(audioPlayerRef (render prev s) = None) = (audioPlayerRef s = None)"
  "(\<exists>b. audioPlayerRef (render prev s) = Some b) = (\<exists>a. audioPlayerRef s = Some a)"
  by (auto simp: render_def audioEffect_def split: option.split)

lemma initial_isRecording: "\<not> isRecording initial"
  by (simp add: initial_def)

lemma trim_Nil: "trim [] = []"
  by (simp add: trim_def)

lemma conversation_onresult:
  "conversation (dispatch (onresult e) s) =
     conversation s @
       (if trim (finalTranscript e) = [] then []
        else [\<lparr>speaker = User, msgText = trim (finalTranscript e)\<rparr>])"
  by (simp add: dispatch_def onresult_def handleUserTurnEnd_def commit_def finalTranscript_def
      render_fields trim_Nil split: prod.split)

lemmas page_eval =
  initial_def mount_def dispatch_def render_def commit_def audioEffect_def handleMicClick_def
  onresult_def handleUserTurnEnd_def onSuccess_def playResolved_def truthy_def phase_def
  transcript0_def trim_def isTrimmable_def js_def heard_def hello_def playingReply_def
  superseded_def awaiting_def ordinaryTurn_def startingReply_def finalTranscript_def onend_def
  stopCapture_def isLoading_def playing_def

text \<open>
  The end of a recognition session never clears \<open>isRecording\<close>: \<open>onend\<close> reads the value
  of the first render. Only a click on the microphone or a recognition error clears it.
\<close>

lemma onend_keeps_isRecording: "isRecording (dispatch onend s) = isRecording s"
  by (simp add: dispatch_def onend_def initial_isRecording commit_def render_fields)

subsection \<open>The refs of a page that can be reached\<close>

lemma bound_step:
  assumes "bound s" and "enabled ev s" and "step ev s = Inr s'"
  shows "bound s'"
proof (cases ev)
  case (Mount supported)
  with assms(2,3) show ?thesis
    by (cases supported)
      (auto simp: bound_def dispatch_def mount_def commit_def render_no_audio initial_def)
next
  case MicClick
  show ?thesis
  proof (cases "recognitionRef s")
    case None
    with assms MicClick show ?thesis
      by (simp add: handleMicClick_def commit_def render_same_audio)
  next
    case (Some r)
    with assms MicClick show ?thesis
      by (auto simp: bound_def handleMicClick_def commit_def render_fields render_player
          split: option.splits if_splits)
  qed
next
  case (Result e)
  with assms show ?thesis
    by (auto simp: bound_def dispatch_def onresult_def handleUserTurnEnd_def commit_def
        render_fields render_player split: prod.splits if_splits)
next
  case RecognitionError
  with assms show ?thesis
    by (auto simp: bound_def dispatch_def onerror_def stopCapture_def commit_def
        render_fields render_player)
next
  case RecognitionEnd
  with assms show ?thesis
    by (auto simp: bound_def dispatch_def onend_def stopCapture_def commit_def
        render_fields render_player initial_isRecording)
next
  case (TurnSuccess i d)
  with assms show ?thesis
    by (auto simp: bound_def dispatch_def onSuccess_def commit_def
        render_fields render_player split: if_splits)
next
  case (TurnError i)
  with assms show ?thesis
    by (auto simp: bound_def dispatch_def onError_def commit_def
        render_fields render_player split: if_splits)
next
  case PlayResolved
  with assms show ?thesis
    by (auto simp: bound_def dispatch_def playResolved_def commit_def
        render_fields render_player split: if_splits)
next
  case PlayRejected
  with assms show ?thesis
    by (auto simp: bound_def dispatch_def playRejected_def commit_def
        render_fields render_player split: if_splits)
next
  case AudioEnded
  with assms show ?thesis
    by (auto simp: bound_def dispatch_def audioStopped_def commit_def
        render_fields render_player render_no_audio split: if_splits)
next
  case AudioError
  with assms show ?thesis
    by (auto simp: bound_def dispatch_def audioStopped_def commit_def
        render_fields render_player render_no_audio split: if_splits)
qed

lemma bound_run:
  "bound s \<Longrightarrow> deliverable evs s \<Longrightarrow> run evs s = Inr s' \<Longrightarrow> bound s'"
proof (induction evs arbitrary: s)
  case Nil
  then show ?case by simp
next
  case (Cons ev evs)
  then show ?case
    by (auto split: sum.splits intro: bound_step)
qed

lemma reached_refs:
  assumes "deliverable evs initial" and "run evs initial = Inr s" and "isAiSpeaking s"
  shows "\<exists>r a. recognitionRef s = Some r \<and> audioPlayerRef s = Some a"
proof -
  have "bound initial" by (simp add: bound_def initial_def)
  from bound_run [OF this assms(1,2)] assms(3) show ?thesis
    by (auto simp: bound_def split: if_splits)
qed

subsection \<open>Entries of the user\<close>

text \<open>
  Claim C7. For every sequence of result events of the recognition, in any state of the
  page, the conversation grows by exactly one \<open>user\<close> entry for each event whose final
  transcript is not empty once trimmed, with the trimmed text and in the order of the
  events, and by nothing for an event whose final transcript is empty or white space.
\<close>

theorem C7_one_user_entry_per_final_transcript:
  "\<exists>s'. run (map Result es) s = Inr s'
      \<and> conversation s' =
          conversation s @
            map (\<lambda>e. \<lparr>speaker = User, msgText = trim (finalTranscript e)\<rparr>)
              (filter (\<lambda>e. trim (finalTranscript e) \<noteq> []) es)"
proof (induction es arbitrary: s)
  case Nil
  show ?case by simp
next
  case (Cons e es)
  from Cons.IH [of "dispatch (onresult e) s"] show ?case
    by (auto simp: conversation_onresult)
qed

text \<open>
  The instance of C7 for an interim result, an utterance, a final result of white space
  and a second utterance.
\<close>

theorem C7_one_user_entry_per_final_transcript_witness:
  "\<exists>s'. run (map Result [heard False (js ''hi''), heard True (js '' hi there ''),
                           heard True (js ''  ''), heard True (js ''bye'')]) initial = Inr s'
      \<and> conversation s' =
          [\<lparr>speaker = User, msgText = js ''hi there''\<rparr>, \<lparr>speaker = User, msgText = js ''bye''\<rparr>]"
  using C7_one_user_entry_per_final_transcript
    [of "[heard False (js ''hi''), heard True (js '' hi there ''),
          heard True (js ''  ''), heard True (js ''bye'')]" initial]
  by (simp add: finalTranscript_def heard_def transcript0_def trim_def isTrimmable_def js_def
      initial_def)

subsection \<open>Interruption\<close>

text \<open>
  A click on the microphone of a page that is not recording while \<open>isAiSpeaking\<close> is set:
  the element is paused and rewound at once, and four updates are queued.
\<close>

lemma interrupting_click:
  assumes "\<not> isRecording s" and "isAiSpeaking s"
    and "recognitionRef s = Some r" and "audioPlayerRef s = Some a"
  shows "handleMicClick s =
           Inr (s\<lparr>audioPlayerRef := Some (a\<lparr>paused := True, currentTime := 0\<rparr>),
                  recognitionRef := Some (r\<lparr>capturing := True\<rparr>)\<rparr>,
                [SetAudioUrl None, SetIsAiSpeaking False, SetUserTranscript [],
                 SetIsRecording True])"
  using assms by (simp add: handleMicClick_def)

text \<open>
  On every page that can be reached, with \<open>isRecording\<close> clear and \<open>isAiSpeaking\<close> set, the
  click interrupts: the element is paused and rewound, the audio locator is cleared, and the
  next state rendered is listening. The four updates are committed together, so no state in
  between is rendered.
\<close>

lemma interruption_when_not_recording:
  assumes "deliverable evs initial" and "run evs initial = Inr s"
    and "\<not> isRecording s" and "isAiSpeaking s"
  shows "\<exists>r a s'. recognitionRef s = Some r \<and> audioPlayerRef s = Some a
           \<and> step MicClick s = Inr s' \<and> phase s' = Listening \<and> audioUrlState s' = None
           \<and> audioPlayerRef s' = Some (a\<lparr>paused := True, currentTime := 0\<rparr>)
           \<and> recognitionRef s' = Some (r\<lparr>capturing := True\<rparr>)"
proof -
  from reached_refs [OF assms(1,2,4)]
  obtain r a where refs: "recognitionRef s = Some r" "audioPlayerRef s = Some a"
    by blast
  from interrupting_click [OF assms(3,4) refs]
  have "\<exists>s'. step MicClick s = Inr s' \<and> phase s' = Listening \<and> audioUrlState s' = None
           \<and> audioPlayerRef s' = Some (a\<lparr>paused := True, currentTime := 0\<rparr>)
           \<and> recognitionRef s' = Some (r\<lparr>capturing := True\<rparr>)"
    by (simp add: commit_def render_no_audio phase_def)
  with refs show ?thesis
    by blast
qed

text \<open>
  While \<open>isRecording\<close> is set a click stops the capture; playback, the audio locator and
  \<open>isAiSpeaking\<close> are left alone.
\<close>

lemma stopping_click:
  assumes "isRecording s" and "recognitionRef s = Some r"
  shows "\<exists>s'. step MicClick s = Inr s' \<and> \<not> isRecording s'
           \<and> isAiSpeaking s' = isAiSpeaking s \<and> audioUrlState s' = audioUrlState s
           \<and> audioPlayerRef s' = audioPlayerRef s"
  using assms by (simp add: handleMicClick_def commit_def render_same_audio)

text \<open>
  Claim C1 says that a click on the microphone while the reply is being played stops the
  playback, clears the audio locator and leaves the page listening. The page does not do so
  after an ordinary turn: the user starts the capture and speaks, the recognition ends by
  itself, the response arrives and the reply is played. \<open>onend\<close> has not cleared
  \<open>isRecording\<close>, so the click takes the branch that stops the capture. After it the reply
  is still being played, the audio locator is still set, and the page is not recording and
  the recognition is not capturing. Only a second click interrupts.
\<close>

theorem C1_click_while_reply_plays:
  "deliverable (ordinaryTurn @ [MicClick, MicClick]) initial
   \<and> map_sum id (\<lambda>s. (playing s, audioUrlState s, isRecording s, isAiSpeaking s))
       (run ordinaryTurn initial)
     = Inr (True, Some (js ''https://fal.media/a.wav''), True, True)
   \<and> map_sum id
       (\<lambda>s. (playing s, audioUrlState s, isRecording s, map_option capturing (recognitionRef s)))
       (run (ordinaryTurn @ [MicClick]) initial)
     = Inr (True, Some (js ''https://fal.media/a.wav''), False, Some False)
   \<and> map_sum id (\<lambda>s. (playing s, audioUrlState s, isRecording s))
       (run (ordinaryTurn @ [MicClick, MicClick]) initial)
     = Inr (False, None, True)"
  by (simp add: page_eval)

text \<open>
  Between the arrival of the response and the settlement of \<open>play()\<close> the page is neither
  recording nor speaking by its flags, while the element already plays. A click then starts
  the capture and leaves the playback and the audio locator alone.
\<close>

lemma click_before_play_settles:
  "deliverable (startingReply @ [MicClick]) initial
   \<and> map_sum id (\<lambda>s. (playing s, audioUrlState s, isRecording s, isAiSpeaking s))
       (run startingReply initial)
     = Inr (True, Some (js ''https://fal.media/a.wav''), False, False)
   \<and> map_sum id (\<lambda>s. (playing s, audioUrlState s, isRecording s, isAiSpeaking s))
       (run (startingReply @ [MicClick]) initial)
     = Inr (True, Some (js ''https://fal.media/a.wav''), True, False)"
  by (simp add: page_eval)

subsection \<open>A response that arrives after an interruption\<close>




end
